theory Spec2Isabelle
  imports Complex_Main
begin

section \<open>The WSI DeepZoom viewer backend (app.py)\<close>

text \<open>
  A shallow embedding of the request handlers of \<^verbatim>\<open>app.py\<close> that track and serve a
  slide's conversion: \<^verbatim>\<open>update_progress\<close>, \<^verbatim>\<open>convert_slide\<close>, \<^verbatim>\<open>get_progress\<close>,
  \<^verbatim>\<open>serve_tile\<close> and \<^verbatim>\<open>delete_slide\<close>. The module's global dictionary, the two
  folders on disk and the scheduled background tasks are an explicit state; every
  handler takes the state and returns its answer with the state it leaves behind. An
  \<^verbatim>\<open>HTTPException\<close> is the \<open>Inl\<close> branch of the answer.
\<close>

subsection \<open>Python values\<close>

text \<open>
  The dictionaries the handlers build hold strings, booleans, integers and floats. A
  dictionary literal is an association list in the order the source writes its keys.
  The handlers do not depend on what a float is: the type \<open>'f\<close> of float values and the
  three float operations \<^verbatim>\<open>update_progress\<close> uses are parameters, and the binary64
  floats of Python are one instance of them, defined further down.
\<close>

datatype 'f pyval = PInt int | PFloat 'f | PStr string | PBool bool

type_synonym 'f pydict = "(string \<times> 'f pyval) list"

datatype py_error = ZeroDivisionError | OverflowError

datatype http_exception = HTTPException nat string

record 'f float_ops =
  int_truediv :: "int \<Rightarrow> int \<Rightarrow> 'f option"
  float_mul_int :: "'f \<Rightarrow> int \<Rightarrow> 'f"
  float_lt_int :: "'f \<Rightarrow> int \<Rightarrow> bool"

text \<open>
  \<open>int_truediv fl a b\<close> is \<^verbatim>\<open>a / b\<close> on integers for a divisor other than zero: the
  quotient as a float, or \<open>None\<close> where Python raises \<^verbatim>\<open>OverflowError\<close> because the
  quotient is too large for a float. \<open>float_mul_int\<close> is \<^verbatim>\<open>x * n\<close> and \<open>float_lt_int\<close> is
  \<^verbatim>\<open>x < n\<close> for a float \<open>x\<close> and an integer \<open>n\<close>. Division by zero is not left to the
  parameter: \<open>truediv\<close> raises before it asks.
\<close>

definition truediv :: "'f float_ops \<Rightarrow> int \<Rightarrow> int \<Rightarrow> py_error + 'f" where
  "truediv fl a b =
     (if b = 0 then Inl ZeroDivisionError
      else case int_truediv fl a b of
             None \<Rightarrow> Inl OverflowError
           | Some q \<Rightarrow> Inr q)"

subsection \<open>Paths and the state\<close>

type_synonym path = "string list"

type_synonym bytes = string

definition UPLOAD_FOLDER :: string where
  "UPLOAD_FOLDER = ''uploads''"

definition CACHE_FOLDER :: string where
  "CACHE_FOLDER = ''cache''"

text \<open>
  A background task as \<^verbatim>\<open>convert_slide\<close> schedules it: the converter's
  \<^verbatim>\<open>convert_to_deepzoom\<close> on the slide's path, with a progress callback bound to the
  slide's name.
\<close>

datatype task = Convert_to_deepzoom path string

text \<open>
  \<open>uploads\<close> lists the names of the files in the upload folder, in the order a
  directory scan yields them; \<open>cache\<close> holds the files under the cache folder, each
  path (a list of components, the folder first) with its content;
  \<open>conversion_progress\<close> is the module's global dictionary; \<open>background_tasks\<close> are
  the tasks scheduled so far, none of them run by the handler that adds it.
\<close>

record 'f state =
  uploads :: "string list"
  cache :: "(path \<times> bytes) list"
  conversion_progress :: "string \<rightharpoonup> 'f pydict"
  background_tasks :: "task list"

subsection \<open>The converter's queries on the cache\<close>

text \<open>
  The converter module (class \<^verbatim>\<open>WSIConverter\<close>) is imported by \<^verbatim>\<open>app.py\<close>; the
  definitions of this subsection stand for its methods. The places of the descriptor
  and of the tiles in the cache folder are the ones \<^verbatim>\<open>app.py\<close> itself reads them
  from: \<^verbatim>\<open>serve_dzi\<close> and the \<^verbatim>\<open>dzi_url\<close> of \<^verbatim>\<open>convert_slide\<close> for the descriptor,
  \<^verbatim>\<open>serve_tile\<close> for the tiles.
\<close>

definition dzi_path :: "string \<Rightarrow> path" where
  "dzi_path slide_name = [CACHE_FOLDER, slide_name @ ''.dzi'']"

definition tiles_dir :: "string \<Rightarrow> path" where
  "tiles_dir slide_name = [CACHE_FOLDER, slide_name @ ''_files'']"

text \<open>A file below the slide's tile directory.\<close>

definition is_tile_of :: "string \<Rightarrow> path \<Rightarrow> bool" where
  "is_tile_of slide_name p =
     (take 2 p = tiles_dir slide_name \<and> 2 < length p)"

text \<open>
  Modelled from the spec: \<^verbatim>\<open>WSIConverter.is_converted\<close>, of the converter module.
  The spec's Descriptor Writer: \<^verbatim>\<open>exists(slideId) -> bool\<close> is the authoritative
  "is converted" predicate; the descriptor's presence marks the conversion complete.
\<close>

definition is_converted :: "(path \<times> bytes) list \<Rightarrow> string \<Rightarrow> bool" where
  "is_converted files slide_name = (map_of files (dzi_path slide_name) \<noteq> None)"

text \<open>
  Modelled from the spec: \<^verbatim>\<open>WSIConverter.is_viewable\<close>, of the converter module. The
  spec's Tile Cache: \<^verbatim>\<open>hasAny(slideId) -> bool\<close>, true if at least one tile file exists
  for the slide.
\<close>

definition is_viewable :: "(path \<times> bytes) list \<Rightarrow> string \<Rightarrow> bool" where
  "is_viewable files slide_name = list_ex (\<lambda>f. is_tile_of slide_name (fst f)) files"

text \<open>
  Modelled from the spec: \<^verbatim>\<open>WSIConverter.cleanup_cache\<close>, of the converter module. The
  spec's Tile Cache: \<^verbatim>\<open>invalidate(slideId)\<close> recursively removes every tile and the
  descriptor for that slide.
\<close>

definition cleanup_cache :: "(path \<times> bytes) list \<Rightarrow> string \<Rightarrow> (path \<times> bytes) list" where
  "cleanup_cache files slide_name =
     filter (\<lambda>f. \<not> is_tile_of slide_name (fst f) \<and> fst f \<noteq> dzi_path slide_name) files"

subsection \<open>update_progress\<close>

text \<open>
  \<^verbatim>\<open>percentage = (current / total) * 100\<close>, then the entry of the slide is replaced.
  \<open>current\<close> and \<open>total\<close> are the tile counts the converter's callback passes. The
  division comes first: where it raises, the exception leaves the function and the
  dictionary is as it was (\<open>Inl\<close>, with no new state).
\<close>

definition update_progress ::
  "'f float_ops \<Rightarrow> 'f state \<Rightarrow> string \<Rightarrow> int \<Rightarrow> int \<Rightarrow> py_error + 'f state" where
  "update_progress fl st slide_name current total' =
     (case truediv fl current total' of
        Inl e \<Rightarrow> Inl e
      | Inr q \<Rightarrow>
          (let percentage = float_mul_int fl q 100 in
           Inr (st\<lparr>conversion_progress := (conversion_progress st)(slide_name \<mapsto>
                  [(''progress'', PFloat percentage),
                   (''status'', PStr (if float_lt_int fl percentage 100
                                      then ''converting'' else ''complete''))])\<rparr>)))"

text \<open>The callback \<^verbatim>\<open>convert_slide\<close> hands to the converter.\<close>

definition progress_callback ::
  "'f float_ops \<Rightarrow> string \<Rightarrow> 'f state \<Rightarrow> int \<Rightarrow> int \<Rightarrow> py_error + 'f state" where
  "progress_callback fl slide_name st current total' =
     update_progress fl st slide_name current total'"

subsection \<open>The handlers\<close>

text \<open>
  \<^verbatim>\<open>upload_dir.glob(pattern)\<close>: the entries of the upload folder whose name matches
  the pattern. The matching of a name against a pattern is pathlib's and is a
  parameter, \<open>fnmatch name pattern\<close>.

  In \<^verbatim>\<open>convert_slide\<close> and \<^verbatim>\<open>delete_slide\<close> the reads and writes of the upload
  folder and the converter's calls are taken to succeed, so the only exception the two
  raise is the \<^verbatim>\<open>HTTPException\<close> with status 404 they raise themselves, and their
  last \<^verbatim>\<open>except Exception\<close> branch (status 500) is not entered.
\<close>

definition glob :: "(string \<Rightarrow> string \<Rightarrow> bool) \<Rightarrow> string list \<Rightarrow> string \<Rightarrow> path list" where
  "glob fnmatch dir pattern =
     map (\<lambda>name. [UPLOAD_FOLDER, name]) (filter (\<lambda>name. fnmatch name pattern) dir)"

definition convert_slide ::
  "(string \<Rightarrow> string \<Rightarrow> bool) \<Rightarrow> 'f state \<Rightarrow> string
     \<Rightarrow> (http_exception + 'f pydict) \<times> 'f state" where
  "convert_slide fnmatch st slide_name =
     (case glob fnmatch (uploads st) (slide_name @ ''.*'') of
        [] \<Rightarrow> (Inl (HTTPException 404 ''Slide not found''), st)
      | slide_path # _ \<Rightarrow>
          if is_converted (cache st) slide_name then
            (Inr [(''success'', PBool True),
                  (''message'', PStr ''Slide already converted''),
                  (''dzi_url'', PStr (''/api/dzi/'' @ slide_name @ ''.dzi'')),
                  (''status'', PStr ''complete'')],
             st)
          else
            (Inr [(''success'', PBool True),
                  (''message'', PStr ''Conversion started''),
                  (''dzi_url'', PStr (''/api/dzi/'' @ slide_name @ ''.dzi'')),
                  (''status'', PStr ''converting'')],
             st\<lparr>conversion_progress := (conversion_progress st)(slide_name \<mapsto>
                   [(''progress'', PInt 0), (''status'', PStr ''starting'')]),
                background_tasks :=
                  background_tasks st @ [Convert_to_deepzoom slide_path slide_name]\<rparr>))"

definition get_progress :: "'f state \<Rightarrow> string \<Rightarrow> 'f pydict" where
  "get_progress st slide_name =
     (case conversion_progress st slide_name of
        Some entry \<Rightarrow> entry
      | None \<Rightarrow>
          if is_converted (cache st) slide_name then
            [(''progress'', PInt 100), (''status'', PStr ''complete'')]
          else if is_viewable (cache st) slide_name then
            [(''progress'', PInt 50), (''status'', PStr ''converting'')]
          else
            [(''progress'', PInt 0), (''status'', PStr ''idle'')])"

text \<open>
  \<^verbatim>\<open>slide_file.unlink()\<close> removes the file of that name from the upload folder; the
  loop of \<^verbatim>\<open>delete_slide\<close> unlinks every match in turn.
\<close>

definition unlink :: "path \<Rightarrow> string list \<Rightarrow> string list" where
  "unlink slide_file dir = filter (\<lambda>name. [UPLOAD_FOLDER, name] \<noteq> slide_file) dir"

definition delete_slide ::
  "(string \<Rightarrow> string \<Rightarrow> bool) \<Rightarrow> 'f state \<Rightarrow> string
     \<Rightarrow> (http_exception + 'f pydict) \<times> 'f state" where
  "delete_slide fnmatch st slide_name =
     (let slide_files = glob fnmatch (uploads st) (slide_name @ ''.*'') in
      if slide_files = [] then (Inl (HTTPException 404 ''Slide not found''), st)
      else
        (Inr [(''success'', PBool True), (''message'', PStr ''Slide deleted'')],
         st\<lparr>uploads := fold unlink slide_files (uploads st),
            cache := cleanup_cache (cache st) slide_name\<rparr>))"

subsection \<open>Tiles\<close>

text \<open>
  \<^verbatim>\<open>str(n)\<close> on an integer: its decimal digits, most significant first, after a minus
  sign when it is negative.
\<close>

definition digit :: "nat \<Rightarrow> char" where
  "digit d = ''0123456789'' ! d"

function str_nat :: "nat \<Rightarrow> string" where
  "str_nat n = (if n < 10 then [digit n] else str_nat (n div 10) @ [digit (n mod 10)])"
  by pat_completeness auto
termination
  by (relation "measure id") auto

definition str :: "int \<Rightarrow> string" where
  "str i = (if i < 0 then CHR ''-'' # str_nat (nat (- i)) else str_nat (nat i))"

text \<open>
  \<^verbatim>\<open>Path(CACHE_FOLDER) / f"{slide_name}_files" / str(level) / f"{col}_{row}.{format}"\<close>.
\<close>

definition tile_path :: "string \<Rightarrow> int \<Rightarrow> int \<Rightarrow> int \<Rightarrow> string \<Rightarrow> path" where
  "tile_path slide_name level col row format =
     tiles_dir slide_name @ [str level, str col @ ''_'' @ str row @ ''.'' @ format]"

text \<open>
  \<^verbatim>\<open>FileResponse(str(tile_path), media_type=...)\<close>: the path of the file, the content
  the response sends (the file's content) and the media type.
\<close>

datatype file_response = FileResponse path bytes string

text \<open>
  \<^verbatim>\<open>tile_path.exists()\<close> answers \<^verbatim>\<open>False\<close> for a missing file and lets the other
  errors of the file system through, such as the \<^verbatim>\<open>OSError\<close> for a name longer than
  the system allows; the handler's last \<^verbatim>\<open>except Exception\<close> branch turns such an
  error \<^verbatim>\<open>e\<close> into status 500 with the detail \<^verbatim>\<open>str(e)\<close>. Which paths the file system
  refuses is the system's own and is a parameter: \<open>os_error p\<close> is the text of the
  error, where there is one.
\<close>

definition serve_tile ::
  "(path \<Rightarrow> string option) \<Rightarrow> 'f state \<Rightarrow> string \<Rightarrow> int \<Rightarrow> int \<Rightarrow> int \<Rightarrow> string
     \<Rightarrow> http_exception + file_response" where
  "serve_tile os_error st slide_name level col row format =
     (case os_error (tile_path slide_name level col row format) of
        Some e \<Rightarrow> Inl (HTTPException 500 e)
      | None \<Rightarrow>
          (case map_of (cache st) (tile_path slide_name level col row format) of
             None \<Rightarrow> Inl (HTTPException 404 ''Tile not found'')
           | Some content \<Rightarrow>
               Inr (FileResponse (tile_path slide_name level col row format) content
                      (''image/'' @ format))))"

text \<open>
  Modelled from the spec: the tile grid of a slide's pyramid, which the planner of the
  converter module computes. The spec's PyramidPlan is the sequence of its levels from
  level 0 to the finest, each with its columnCount and rowCount (here a pair); a tile of
  a level has \<^verbatim>\<open>col\<close> in [0, columnCount) and \<^verbatim>\<open>row\<close> in [0, rowCount).
\<close>

type_synonym pyramid_plan = "(nat \<times> nat) list"

definition in_range :: "pyramid_plan \<Rightarrow> int \<Rightarrow> int \<Rightarrow> int \<Rightarrow> bool" where
  "in_range plan level col row =
     (0 \<le> level \<and> level < int (length plan)
      \<and> 0 \<le> col \<and> col < int (fst (plan ! nat level))
      \<and> 0 \<le> row \<and> row < int (snd (plan ! nat level)))"

subsection \<open>Binary64 floats\<close>

text \<open>
  Python's \<^verbatim>\<open>float\<close> is the IEEE 754 binary64 format. \<open>Float m e\<close> is the finite float
  \<open>m * 2 ^ e\<close>; a normal float has \<open>2 ^ 52 \<le> \<bar>m\<bar> < 2 ^ 53\<close> and \<open>- 1074 \<le> e \<le> 971\<close>,
  a subnormal one has \<open>\<bar>m\<bar> < 2 ^ 52\<close> and \<open>e = - 1074\<close>, and zero is \<open>Float 0 0\<close> (the
  sign of a zero is not kept). \<open>float_value\<close> is the rational a finite float stands
  for.
\<close>

datatype float64 = Float int int | PosInf | NegInf | NaN

definition float_value :: "float64 \<Rightarrow> rat option" where
  "float_value x =
     (case x of
        Float m e \<Rightarrow>
          Some (if 0 \<le> e then of_int (m * 2 ^ nat e) else of_int m / of_int (2 ^ nat (- e)))
      | _ \<Rightarrow> None)"

text \<open>The number of binary digits of a positive integer (\<^verbatim>\<open>int.bit_length\<close>).\<close>

function bit_length :: "int \<Rightarrow> int" where
  "bit_length n = (if n \<le> 0 then 0 else 1 + bit_length (n div 2))"
  by pat_completeness auto
termination
  by (relation "measure nat") auto

text \<open>
  For positive \<open>a\<close> and \<open>b\<close>: \<open>floor_log2 a b\<close> is the exponent \<open>s\<close> with
  \<open>2 ^ s \<le> a / b < 2 ^ (s + 1)\<close>, and \<open>round_half_even a b\<close> is the integer nearest to
  \<open>a / b\<close>, the even one of the two when \<open>a / b\<close> lies half way.
\<close>

definition floor_log2 :: "int \<Rightarrow> int \<Rightarrow> int" where
  "floor_log2 a b =
     (let s = bit_length a - bit_length b in
      if (if 0 \<le> s then b * 2 ^ nat s \<le> a else b \<le> a * 2 ^ nat (- s)) then s else s - 1)"

definition round_half_even :: "int \<Rightarrow> int \<Rightarrow> int" where
  "round_half_even a b =
     (let f = a div b; r = a mod b in
      if 2 * r < b then f else if b < 2 * r then f + 1 else if even f then f else f + 1)"

text \<open>
  Rounding to nearest, ties to even: the float nearest to \<open>a / b\<close> (to \<open>- a / b\<close> when
  \<open>negative\<close>) for \<open>0 \<le> a\<close> and \<open>0 < b\<close>. The quotient is cut to 53 binary digits,
  to fewer below \<open>2 ^ - 1022\<close>, where the floats are subnormal; a result of
  \<open>2 ^ 1024\<close> or more is an infinity.
\<close>

definition round_to_float :: "bool \<Rightarrow> int \<Rightarrow> int \<Rightarrow> float64" where
  "round_to_float negative a b =
     (let e = max (floor_log2 a b) (- 1022);
          k = e - 52;
          m = (if 0 \<le> k then round_half_even a (b * 2 ^ nat k)
               else round_half_even (a * 2 ^ nat (- k)) b);
          k' = (if m = 2 ^ 53 then k + 1 else k);
          m' = (if m = 2 ^ 53 then 2 ^ 52 else m)
      in if m' = 0 then Float 0 0
         else if 971 < k' then (if negative then NegInf else PosInf)
         else Float (if negative then - m' else m') k')"

text \<open>
  The three operations of \<^verbatim>\<open>update_progress\<close>. \<^verbatim>\<open>a / b\<close> on integers is the
  correctly rounded quotient, and \<^verbatim>\<open>OverflowError\<close> where that is no finite float.
  \<^verbatim>\<open>x * n\<close> turns the integer into a float and multiplies as IEEE 754 does, with an
  infinity on overflow. \<^verbatim>\<open>x < n\<close> compares the float with the integer exactly.
  \<^verbatim>\<open>update_progress\<close> multiplies by 100 and compares with 100 only; for an integer
  beyond the range of the floats, where Python raises \<^verbatim>\<open>OverflowError\<close>,
  \<open>float_of_int\<close> is an infinity.
\<close>

definition int_truediv64 :: "int \<Rightarrow> int \<Rightarrow> float64 option" where
  "int_truediv64 a b =
     (case round_to_float ((a < 0) \<noteq> (b < 0)) \<bar>a\<bar> \<bar>b\<bar> of
        Float m e \<Rightarrow> Some (Float m e)
      | _ \<Rightarrow> None)"

definition float_of_int :: "int \<Rightarrow> float64" where
  "float_of_int n = round_to_float (n < 0) \<bar>n\<bar> 1"

fun float_mul :: "float64 \<Rightarrow> float64 \<Rightarrow> float64" where
  "float_mul (Float m e) (Float n f) =
     (if 0 \<le> e + f then round_to_float (m * n < 0) (\<bar>m * n\<bar> * 2 ^ nat (e + f)) 1
      else round_to_float (m * n < 0) \<bar>m * n\<bar> (2 ^ nat (- (e + f))))"
| "float_mul NaN y = NaN"
| "float_mul x NaN = NaN"
| "float_mul (Float m e) y =
     (if m = 0 then NaN else if (m < 0) = (y = NegInf) then PosInf else NegInf)"
| "float_mul x (Float n f) =
     (if n = 0 then NaN else if (n < 0) = (x = NegInf) then PosInf else NegInf)"
| "float_mul x y = (if x = y then PosInf else NegInf)"

definition float_lt :: "float64 \<Rightarrow> int \<Rightarrow> bool" where
  "float_lt x n =
     (case x of
        Float m e \<Rightarrow> (if 0 \<le> e then m * 2 ^ nat e < n else m < n * 2 ^ nat (- e))
      | NegInf \<Rightarrow> True
      | _ \<Rightarrow> False)"

definition binary64 :: "float64 float_ops" where
  "binary64 =
     \<lparr>int_truediv = int_truediv64,
      float_mul_int = (\<lambda>x n. float_mul x (float_of_int n)),
      float_lt_int = float_lt\<rparr>"

subsection \<open>Inputs to run the model on\<close>

text \<open>
  Exact rational arithmetic in the place of the float operations, and a matcher for
  patterns made of literal characters, \<^verbatim>\<open>?\<close> and \<^verbatim>\<open>*\<close>.
\<close>

definition exact_ops :: "rat float_ops" where
  "exact_ops =
     \<lparr>int_truediv = (\<lambda>a b. Some (of_int a / of_int b)),
      float_mul_int = (\<lambda>x n. x * of_int n),
      float_lt_int = (\<lambda>x n. x < of_int n)\<rparr>"

fun wildcard_match :: "string \<Rightarrow> string \<Rightarrow> bool" where
  "wildcard_match [] [] = True"
| "wildcard_match (c # cs) [] = False"
| "wildcard_match [] (p # ps) = (p = CHR ''*'' \<and> wildcard_match [] ps)"
| "wildcard_match (c # cs) (p # ps) =
     (if p = CHR ''*'' then wildcard_match (c # cs) ps \<or> wildcard_match cs (p # ps)
      else (p = CHR ''?'' \<or> p = c) \<and> wildcard_match cs ps)"

definition empty_state :: "rat state" where
  "empty_state =
     \<lparr>uploads = [], cache = [], conversion_progress = Map.empty, background_tasks = []\<rparr>"

text \<open>
  States of a server with two uploads. \<open>slide1_uploaded\<close>: nothing converted yet.
  \<open>slide1_converting\<close>: a conversion of \<^verbatim>\<open>slide1\<close> is under way, at 40 percent.
  \<open>slide1_converted\<close>: the conversion is done and tracked. \<open>slide1_stale\<close>: the
  descriptor is on disk while the tracker still holds an entry of a running job.
  \<open>slide1_restarted\<close> and \<open>slide1_partial\<close>: the tracker is empty, as after a restart,
  with a finished and with a half-built pyramid. \<open>slide1_orphaned\<close>: the pyramid is
  cached and the upload is gone.
\<close>

definition slide1_task :: task where
  "slide1_task = Convert_to_deepzoom [''uploads'', ''slide1.svs''] ''slide1''"

definition slide1_tiles :: "(path \<times> bytes) list" where
  "slide1_tiles =
     [([''cache'', ''slide1_files'', ''0'', ''0_0.jpeg''], ''tile-0-0-0''),
      ([''cache'', ''slide1_files'', ''1'', ''0_0.jpeg''], ''tile-1-0-0''),
      ([''cache'', ''slide1_files'', ''1'', ''1_0.jpeg''], ''tile-1-1-0'')]"

definition slide1_dzi :: "path \<times> bytes" where
  "slide1_dzi = ([''cache'', ''slide1.dzi''], ''descriptor'')"

definition slide1_uploaded :: "rat state" where
  "slide1_uploaded =
     \<lparr>uploads = [''slide1.svs'', ''other.tif''], cache = [],
      conversion_progress = Map.empty, background_tasks = []\<rparr>"

definition slide1_converting :: "rat state" where
  "slide1_converting =
     \<lparr>uploads = [''slide1.svs'', ''other.tif''], cache = [hd slide1_tiles],
      conversion_progress =
        [''slide1'' \<mapsto> [(''progress'', PFloat 40), (''status'', PStr ''converting'')]],
      background_tasks = [slide1_task]\<rparr>"

definition slide1_converted :: "rat state" where
  "slide1_converted =
     \<lparr>uploads = [''slide1.svs'', ''other.tif''], cache = slide1_dzi # slide1_tiles,
      conversion_progress =
        [''slide1'' \<mapsto> [(''progress'', PFloat 100), (''status'', PStr ''complete'')]],
      background_tasks = [slide1_task]\<rparr>"

definition slide1_stale :: "rat state" where
  "slide1_stale =
     \<lparr>uploads = [''slide1.svs'', ''other.tif''], cache = slide1_dzi # slide1_tiles,
      conversion_progress =
        [''slide1'' \<mapsto> [(''progress'', PFloat 40), (''status'', PStr ''converting'')]],
      background_tasks = [slide1_task, slide1_task]\<rparr>"

definition slide1_restarted :: "rat state" where
  "slide1_restarted =
     \<lparr>uploads = [''slide1.svs'', ''other.tif''], cache = slide1_dzi # slide1_tiles,
      conversion_progress = Map.empty, background_tasks = []\<rparr>"

definition slide1_partial :: "rat state" where
  "slide1_partial =
     \<lparr>uploads = [''slide1.svs'', ''other.tif''], cache = [hd slide1_tiles],
      conversion_progress = Map.empty, background_tasks = []\<rparr>"

definition slide1_orphaned :: "rat state" where
  "slide1_orphaned =
     \<lparr>uploads = [''other.tif''], cache = slide1_dzi # slide1_tiles,
      conversion_progress = Map.empty, background_tasks = []\<rparr>"

text \<open>\<open>no_jobs\<close>: a server with binary64 floats and an empty tracker.\<close>

definition no_jobs :: "float64 state" where
  "no_jobs =
     \<lparr>uploads = [''slide1.svs''], cache = [], conversion_progress = Map.empty,
      background_tasks = []\<rparr>"

text \<open>The pyramid of \<^verbatim>\<open>slide1\<close>: one tile at level 0, two columns at level 1.\<close>

definition slide1_plan :: pyramid_plan where
  "slide1_plan = [(1, 1), (2, 1)]"

text \<open>
  \<open>slide1_overfull\<close>: the cache of \<open>slide1_restarted\<close> with one more tile file, in a
  third column of level 1, as an earlier and wider slide of the same name leaves it
  behind (\<^verbatim>\<open>upload_file\<close> replaces the source file and leaves the cache alone).
\<close>

definition slide1_overfull :: "rat state" where
  "slide1_overfull =
     \<lparr>uploads = [''slide1.svs'', ''other.tif''],
      cache = slide1_dzi # slide1_tiles
        @ [([''cache'', ''slide1_files'', ''1'', ''2_0.jpeg''], ''tile-1-2-0'')],
      conversion_progress = Map.empty, background_tasks = []\<rparr>"

text \<open>
  Two file systems: one that refuses no path, and one that refuses a path with a
  component of more than 255 characters.
\<close>

definition no_os_error :: "path \<Rightarrow> string option" where
  "no_os_error p = None"

definition name_max_255 :: "path \<Rightarrow> string option" where
  "name_max_255 p =
     (if list_ex (\<lambda>name. 255 < length name) p then Some ''File name too long'' else None)"

text \<open>
  A job in state \<^verbatim>\<open>starting\<close> or \<^verbatim>\<open>converting\<close>: an entry of the tracker whose
  status is one of the two.
\<close>

definition job_in_flight :: "'f pydict \<Rightarrow> bool" where
  "job_in_flight entry =
     (map_of entry ''status'' = Some (PStr ''starting'')
      \<or> map_of entry ''status'' = Some (PStr ''converting''))"

section \<open>Properties\<close>

subsection \<open>Facts about the cache queries and the example inputs\<close>

lemmas paths_defs = dzi_path_def tiles_dir_def is_tile_of_def CACHE_FOLDER_def
  UPLOAD_FOLDER_def

lemmas example_defs = slide1_task_def slide1_tiles_def slide1_dzi_def
  slide1_uploaded_def slide1_converting_def slide1_converted_def slide1_stale_def
  slide1_restarted_def slide1_partial_def slide1_orphaned_def

lemma glob_slide1 [simp]:
  "glob wildcard_match [''slide1.svs'', ''other.tif''] ''slide1.*'' =
     [[''uploads'', ''slide1.svs'']]"
  by (simp add: glob_def UPLOAD_FOLDER_def)

lemma glob_slide1_gone [simp]:
  "glob wildcard_match [''other.tif''] ''slide1.*'' = []"
  by (simp add: glob_def UPLOAD_FOLDER_def)

lemma map_of_filter_fst:
  "map_of (filter (\<lambda>f. P (fst f)) files) k = (if P k then map_of files k else None)"
  by (induction files) auto

lemma cleanup_cache_not_converted: "\<not> is_converted (cleanup_cache files slide_name) slide_name"
  using map_of_filter_fst
    [where P = "\<lambda>p. \<not> is_tile_of slide_name p \<and> p \<noteq> dzi_path slide_name"
       and files = files and k = "dzi_path slide_name"]
  by (simp add: is_converted_def cleanup_cache_def)

lemma cleanup_cache_not_viewable: "\<not> is_viewable (cleanup_cache files slide_name) slide_name"
  by (auto simp: is_viewable_def cleanup_cache_def list_ex_iff)

subsection \<open>Division by zero in update_progress\<close>

text \<open>
  C9. \<^verbatim>\<open>update_progress\<close> divides by its \<open>total\<close> argument without a guard. It raises
  \<^verbatim>\<open>ZeroDivisionError\<close> exactly when \<open>total\<close> is zero, whatever the float arithmetic
  is, so it returns a new state only where \<open>total\<close> is not zero; with \<open>total = 0\<close> the
  progress callback raises the error and publishes nothing.
\<close>

theorem update_progress_zero_total:
  "(update_progress fl st slide_name current total' = Inl ZeroDivisionError) = (total' = 0)
   \<and> progress_callback fl slide_name st current 0 = Inl ZeroDivisionError
   \<and> (\<forall>st'. update_progress fl st slide_name current total' = Inr st' \<longrightarrow> total' \<noteq> 0)"
  by (auto simp: update_progress_def progress_callback_def truediv_def Let_def
      split: option.splits)

theorem update_progress_zero_total_witness:
  "update_progress exact_ops empty_state ''slide1'' 3 0 = Inl ZeroDivisionError
   \<and> progress_callback exact_ops ''slide1'' empty_state 3 0 = Inl ZeroDivisionError
   \<and> update_progress exact_ops empty_state ''slide1'' 1 4 =
       Inr (empty_state\<lparr>conversion_progress :=
              [''slide1'' \<mapsto> [(''progress'', PFloat 25), (''status'', PStr ''converting'')]]\<rparr>)
   \<and> (4 :: int) \<noteq> 0"
  using update_progress_zero_total [of exact_ops empty_state "''slide1''" 3 0]
    update_progress_zero_total [of exact_ops empty_state "''slide1''" 1 4]
  by (simp add: update_progress_def truediv_def exact_ops_def empty_state_def Let_def)

subsection \<open>What update_progress publishes\<close>

declare bit_length.simps [simp del]

lemma round_to_float_self:
  assumes "0 < a"
  shows "round_to_float False a a = Float 4503599627370496 (- 52)"
proof -
  have log: "floor_log2 a a = 0"
    by (simp add: floor_log2_def)
  have "round_half_even (a * 2 ^ 52) a = 2 ^ 52"
    using assms by (simp add: round_half_even_def)
  then show ?thesis
    by (simp add: round_to_float_def log)
qed

lemma int_truediv_self:
  assumes "t \<noteq> 0"
  shows "int_truediv binary64 t t = Some (Float 4503599627370496 (- 52))"
proof -
  from assms have "0 < \<bar>t\<bar>" by simp
  then have "round_to_float False \<bar>t\<bar> \<bar>t\<bar> = Float 4503599627370496 (- 52)"
    by (rule round_to_float_self)
  then show ?thesis
    by (simp add: binary64_def int_truediv64_def)
qed

lemma float_mul_one_hundred:
  "float_mul_int binary64 (Float 4503599627370496 (- 52)) 100 = Float 7036874417766400 (- 46)"
  by code_simp

lemma float_lt_one_hundred:
  "\<not> float_lt_int binary64 (Float 7036874417766400 (- 46)) 100"
  by code_simp

lemma float_value_one_hundred: "float_value (Float 7036874417766400 (- 46)) = Some 100"
  by code_simp

lemma int_truediv_7_25: "int_truediv binary64 7 25 = Some (Float 5044031582654956 (- 54))"
  by code_simp

lemma float_mul_7_25:
  "float_mul_int binary64 (Float 5044031582654956 (- 54)) 100 = Float 7881299347898369 (- 48)"
  by code_simp

lemma float_lt_7_25: "float_lt_int binary64 (Float 7881299347898369 (- 48)) 100"
  by code_simp

lemma float_value_7_25:
  "float_value (Float 7881299347898369 (- 48)) = Some (7881299347898369 / 281474976710656)"
  by code_simp

lemma update_progress_7_25:
  "update_progress binary64 no_jobs ''slide1'' 7 25 =
     Inr (no_jobs\<lparr>conversion_progress := (conversion_progress no_jobs)(''slide1'' \<mapsto>
            [(''progress'', PFloat (Float 7881299347898369 (- 48))),
             (''status'', PStr ''converting'')])\<rparr>)"
  by (simp add: update_progress_def truediv_def Let_def int_truediv_7_25
      float_mul_7_25 float_lt_7_25)

text \<open>
  C6. Whatever the float arithmetic is, a progress update with \<open>total\<close> other than zero
  whose quotient is a float publishes, as the percentage, the float product by 100 of the
  float quotient \<^verbatim>\<open>current / total\<close>, and as the status \<^verbatim>\<open>converting\<close> exactly when
  that percentage compares below 100, \<^verbatim>\<open>complete\<close> otherwise; nothing else is ever
  published. In binary64 arithmetic, the update with \<open>current = total\<close> publishes
  exactly 100 and \<^verbatim>\<open>complete\<close>.
\<close>

theorem update_progress_publishes:
  "(\<forall>q. total' \<noteq> 0 \<and> int_truediv fl current total' = Some q \<longrightarrow>
      update_progress fl st slide_name current total' =
        Inr (st\<lparr>conversion_progress := (conversion_progress st)(slide_name \<mapsto>
               [(''progress'', PFloat (float_mul_int fl q 100)),
                (''status'', PStr (if float_lt_int fl (float_mul_int fl q 100) 100
                                   then ''converting'' else ''complete''))])\<rparr>))
   \<and> (\<forall>st'. update_progress fl st slide_name current total' = Inr st' \<longrightarrow>
         (\<exists>q. total' \<noteq> 0 \<and> int_truediv fl current total' = Some q
            \<and> conversion_progress st' slide_name =
                Some [(''progress'', PFloat (float_mul_int fl q 100)),
                      (''status'', PStr (if float_lt_int fl (float_mul_int fl q 100) 100
                                         then ''converting'' else ''complete''))]))
   \<and> (total' \<noteq> 0 \<longrightarrow>
        (\<exists>p. update_progress binary64 st64 slide_name total' total' =
           Inr (st64\<lparr>conversion_progress := (conversion_progress st64)(slide_name \<mapsto>
                  [(''progress'', PFloat p), (''status'', PStr ''complete'')])\<rparr>)
           \<and> float_value p = Some 100))"
proof (intro conjI allI impI)
  fix q
  assume "total' \<noteq> 0 \<and> int_truediv fl current total' = Some q"
  then show "update_progress fl st slide_name current total' =
        Inr (st\<lparr>conversion_progress := (conversion_progress st)(slide_name \<mapsto>
               [(''progress'', PFloat (float_mul_int fl q 100)),
                (''status'', PStr (if float_lt_int fl (float_mul_int fl q 100) 100
                                   then ''converting'' else ''complete''))])\<rparr>)"
    by (simp add: update_progress_def truediv_def Let_def)
next
  fix st'
  assume "update_progress fl st slide_name current total' = Inr st'"
  then show "\<exists>q. total' \<noteq> 0 \<and> int_truediv fl current total' = Some q
            \<and> conversion_progress st' slide_name =
                Some [(''progress'', PFloat (float_mul_int fl q 100)),
                      (''status'', PStr (if float_lt_int fl (float_mul_int fl q 100) 100
                                         then ''converting'' else ''complete''))]"
    by (auto simp: update_progress_def truediv_def Let_def split: if_splits option.splits)
next
  assume "total' \<noteq> 0"
  then have "update_progress binary64 st64 slide_name total' total' =
           Inr (st64\<lparr>conversion_progress := (conversion_progress st64)(slide_name \<mapsto>
                  [(''progress'', PFloat (Float 7036874417766400 (- 46))),
                   (''status'', PStr ''complete'')])\<rparr>)"
    by (simp add: update_progress_def truediv_def Let_def int_truediv_self
        float_mul_one_hundred float_lt_one_hundred)
  with float_value_one_hundred
  show "\<exists>p. update_progress binary64 st64 slide_name total' total' =
           Inr (st64\<lparr>conversion_progress := (conversion_progress st64)(slide_name \<mapsto>
                  [(''progress'', PFloat p), (''status'', PStr ''complete'')])\<rparr>)
           \<and> float_value p = Some 100"
    by blast
qed

theorem update_progress_publishes_witness:
  "int_truediv binary64 7 25 = Some (Float 5044031582654956 (- 54))
   \<and> update_progress binary64 no_jobs ''slide1'' 7 25 =
       Inr (no_jobs\<lparr>conversion_progress := (conversion_progress no_jobs)(''slide1'' \<mapsto>
              [(''progress'', PFloat (Float 7881299347898369 (- 48))),
               (''status'', PStr ''converting'')])\<rparr>)
   \<and> update_progress binary64 no_jobs ''slide1'' 25 25 =
       Inr (no_jobs\<lparr>conversion_progress := (conversion_progress no_jobs)(''slide1'' \<mapsto>
              [(''progress'', PFloat (Float 7036874417766400 (- 46))),
               (''status'', PStr ''complete'')])\<rparr>)
   \<and> float_value (Float 7036874417766400 (- 46)) = Some 100"
proof -
  have nonzero: "(25 :: int) \<noteq> 0" by simp
  from update_progress_publishes [of 25 binary64 7 no_jobs "''slide1''" no_jobs]
    int_truediv_7_25 nonzero
  have first: "update_progress binary64 no_jobs ''slide1'' 7 25 =
       Inr (no_jobs\<lparr>conversion_progress := (conversion_progress no_jobs)(''slide1'' \<mapsto>
              [(''progress'', PFloat (float_mul_int binary64 (Float 5044031582654956 (- 54)) 100)),
               (''status'', PStr (if float_lt_int binary64
                    (float_mul_int binary64 (Float 5044031582654956 (- 54)) 100) 100
                  then ''converting'' else ''complete''))])\<rparr>)"
    by blast
  from update_progress_publishes [of 25 binary64 25 no_jobs "''slide1''" no_jobs]
    int_truediv_self [OF nonzero] nonzero
  have last: "update_progress binary64 no_jobs ''slide1'' 25 25 =
       Inr (no_jobs\<lparr>conversion_progress := (conversion_progress no_jobs)(''slide1'' \<mapsto>
              [(''progress'', PFloat (float_mul_int binary64 (Float 4503599627370496 (- 52)) 100)),
               (''status'', PStr (if float_lt_int binary64
                    (float_mul_int binary64 (Float 4503599627370496 (- 52)) 100) 100
                  then ''converting'' else ''complete''))])\<rparr>)"
    by blast
  from first last show ?thesis
    by (simp add: int_truediv_7_25 float_mul_7_25 float_lt_7_25 float_mul_one_hundred
        float_lt_one_hundred float_value_one_hundred)
qed

text \<open>
  The spec's sentence fails on the rounding of the two float operations: 7 of 25 tiles
  publish 28.000000000000004, the float \<open>7881299347898369 / 2 ^ 48\<close>, and not 28.
\<close>

theorem update_progress_rounding_counterexample:
  "update_progress binary64 no_jobs ''slide1'' 7 25 =
     Inr (no_jobs\<lparr>conversion_progress := (conversion_progress no_jobs)(''slide1'' \<mapsto>
            [(''progress'', PFloat (Float 7881299347898369 (- 48))),
             (''status'', PStr ''converting'')])\<rparr>)
   \<and> float_value (Float 7881299347898369 (- 48)) =
       Some (7881299347898369 / 281474976710656)
   \<and> float_value (Float 7881299347898369 (- 48)) \<noteq> Some (100 * 7 / 25)"
  using update_progress_7_25 float_value_7_25 by simp

subsection \<open>Conversion requests\<close>

text \<open>
  C2. A conversion request for a slide whose source file is in the upload folder and
  whose descriptor already exists answers with status \<^verbatim>\<open>complete\<close> at once and leaves
  the state as it was: no background task is scheduled, the tracker and the cache are
  untouched.
\<close>

theorem convert_slide_already_converted:
  assumes "glob fnmatch (uploads st) (slide_name @ ''.*'') \<noteq> []"
    and "is_converted (cache st) slide_name"
  shows "convert_slide fnmatch st slide_name =
           (Inr [(''success'', PBool True),
                 (''message'', PStr ''Slide already converted''),
                 (''dzi_url'', PStr (''/api/dzi/'' @ slide_name @ ''.dzi'')),
                 (''status'', PStr ''complete'')],
            st)
         \<and> background_tasks (snd (convert_slide fnmatch st slide_name)) = background_tasks st
         \<and> conversion_progress (snd (convert_slide fnmatch st slide_name)) =
             conversion_progress st
         \<and> cache (snd (convert_slide fnmatch st slide_name)) = cache st"
  using assms by (simp add: convert_slide_def split: list.splits)

theorem convert_slide_already_converted_witness:
  "glob wildcard_match (uploads slide1_restarted) (''slide1'' @ ''.*'') \<noteq> []
   \<and> is_converted (cache slide1_restarted) ''slide1''
   \<and> convert_slide wildcard_match slide1_restarted ''slide1'' =
       (Inr [(''success'', PBool True),
             (''message'', PStr ''Slide already converted''),
             (''dzi_url'', PStr ''/api/dzi/slide1.dzi''),
             (''status'', PStr ''complete'')],
        slide1_restarted)
   \<and> background_tasks (snd (convert_slide wildcard_match slide1_restarted ''slide1'')) = []"
proof -
  have found: "glob wildcard_match (uploads slide1_restarted) (''slide1'' @ ''.*'') \<noteq> []"
    by (simp add: slide1_restarted_def)
  have converted: "is_converted (cache slide1_restarted) ''slide1''"
    by (simp add: is_converted_def paths_defs example_defs)
  from convert_slide_already_converted [OF found converted] found converted
  show ?thesis by (simp add: slide1_restarted_def)
qed

text \<open>
  C1. \<^verbatim>\<open>convert_slide\<close> never looks at the tracker before it starts a conversion. For
  a slide whose source file is uploaded and whose descriptor does not exist, a further
  conversion request made while a job of that slide is \<^verbatim>\<open>starting\<close> or \<^verbatim>\<open>converting\<close>
  replaces the job's entry by progress 0, status \<^verbatim>\<open>starting\<close>, and schedules one more
  background conversion of the slide.
\<close>

theorem convert_slide_in_flight:
  assumes "conversion_progress st slide_name = Some job"
    and "job_in_flight job"
    and "glob fnmatch (uploads st) (slide_name @ ''.*'') = slide_path # others"
    and "\<not> is_converted (cache st) slide_name"
  shows "conversion_progress (snd (convert_slide fnmatch st slide_name)) slide_name =
           Some [(''progress'', PInt 0), (''status'', PStr ''starting'')]
         \<and> background_tasks (snd (convert_slide fnmatch st slide_name)) =
             background_tasks st @ [Convert_to_deepzoom slide_path slide_name]"
  using assms by (simp add: convert_slide_def)

theorem convert_slide_in_flight_witness:
  "conversion_progress slide1_converting ''slide1'' =
     Some [(''progress'', PFloat 40), (''status'', PStr ''converting'')]
   \<and> job_in_flight [(''progress'', PFloat (40 :: rat)), (''status'', PStr ''converting'')]
   \<and> glob wildcard_match (uploads slide1_converting) (''slide1'' @ ''.*'') =
       [[''uploads'', ''slide1.svs'']]
   \<and> \<not> is_converted (cache slide1_converting) ''slide1''
   \<and> conversion_progress (snd (convert_slide wildcard_match slide1_converting ''slide1''))
         ''slide1'' =
       Some [(''progress'', PInt 0), (''status'', PStr ''starting'')]
   \<and> background_tasks (snd (convert_slide wildcard_match slide1_converting ''slide1'')) =
       [slide1_task, slide1_task]"
proof -
  have tracked: "conversion_progress slide1_converting ''slide1'' =
     Some [(''progress'', PFloat 40), (''status'', PStr ''converting'')]"
    by (simp add: slide1_converting_def)
  have running: "job_in_flight [(''progress'', PFloat (40 :: rat)), (''status'', PStr ''converting'')]"
    by (simp add: job_in_flight_def)
  have found: "glob wildcard_match (uploads slide1_converting) (''slide1'' @ ''.*'') =
       [''uploads'', ''slide1.svs''] # []"
    by (simp add: slide1_converting_def)
  have fresh: "\<not> is_converted (cache slide1_converting) ''slide1''"
    by (simp add: is_converted_def paths_defs example_defs)
  from convert_slide_in_flight [OF tracked running found fresh] tracked running found fresh
  show ?thesis by (simp add: slide1_converting_def slide1_task_def)
qed

text \<open>
  The spec's sentence fails on a job at 40 percent: the second request sets
  the recorded progress back to 0 and a second conversion task stands in the queue.
\<close>

theorem convert_slide_in_flight_counterexample:
  "conversion_progress slide1_converting ''slide1'' =
     Some [(''progress'', PFloat 40), (''status'', PStr ''converting'')]
   \<and> background_tasks slide1_converting = [slide1_task]
   \<and> conversion_progress (snd (convert_slide wildcard_match slide1_converting ''slide1''))
         ''slide1'' =
       Some [(''progress'', PInt 0), (''status'', PStr ''starting'')]
   \<and> background_tasks (snd (convert_slide wildcard_match slide1_converting ''slide1'')) =
       [slide1_task, slide1_task]
   \<and> snd (convert_slide wildcard_match slide1_converting ''slide1'') \<noteq> slide1_converting"
proof -
  have "background_tasks (snd (convert_slide wildcard_match slide1_converting ''slide1'')) =
       [slide1_task, slide1_task]"
    by (simp add: convert_slide_def is_converted_def paths_defs example_defs)
  moreover have "background_tasks slide1_converting = [slide1_task]"
    by (simp add: slide1_converting_def)
  moreover have "conversion_progress (snd (convert_slide wildcard_match slide1_converting ''slide1''))
         ''slide1'' =
       Some [(''progress'', PInt 0), (''status'', PStr ''starting'')]"
    by (simp add: convert_slide_def is_converted_def paths_defs example_defs)
  moreover have "conversion_progress slide1_converting ''slide1'' =
     Some [(''progress'', PFloat 40), (''status'', PStr ''converting'')]"
    by (simp add: slide1_converting_def)
  ultimately show ?thesis by auto
qed

text \<open>
  C7. A conversion request for an uploaded slide that is not yet converted does no
  conversion work itself: it records the new job with progress 0 and status
  \<^verbatim>\<open>starting\<close>, adds the conversion to the background tasks, leaves the uploads and
  the cache as they were, and answers with the message \<^verbatim>\<open>Conversion started\<close> and the
  status \<^verbatim>\<open>converting\<close>.
\<close>

theorem convert_slide_dispatch:
  assumes "glob fnmatch (uploads st) (slide_name @ ''.*'') = slide_path # others"
    and "\<not> is_converted (cache st) slide_name"
  shows "fst (convert_slide fnmatch st slide_name) =
           Inr [(''success'', PBool True),
                (''message'', PStr ''Conversion started''),
                (''dzi_url'', PStr (''/api/dzi/'' @ slide_name @ ''.dzi'')),
                (''status'', PStr ''converting'')]
         \<and> conversion_progress (snd (convert_slide fnmatch st slide_name)) =
             (conversion_progress st)(slide_name \<mapsto>
                [(''progress'', PInt 0), (''status'', PStr ''starting'')])
         \<and> background_tasks (snd (convert_slide fnmatch st slide_name)) =
             background_tasks st @ [Convert_to_deepzoom slide_path slide_name]
         \<and> cache (snd (convert_slide fnmatch st slide_name)) = cache st
         \<and> uploads (snd (convert_slide fnmatch st slide_name)) = uploads st"
  using assms by (simp add: convert_slide_def)

theorem convert_slide_dispatch_witness:
  "glob wildcard_match (uploads slide1_uploaded) (''slide1'' @ ''.*'') =
     [[''uploads'', ''slide1.svs'']]
   \<and> \<not> is_converted (cache slide1_uploaded) ''slide1''
   \<and> fst (convert_slide wildcard_match slide1_uploaded ''slide1'') =
       Inr [(''success'', PBool True),
            (''message'', PStr ''Conversion started''),
            (''dzi_url'', PStr ''/api/dzi/slide1.dzi''),
            (''status'', PStr ''converting'')]
   \<and> conversion_progress (snd (convert_slide wildcard_match slide1_uploaded ''slide1'')) =
       [''slide1'' \<mapsto> [(''progress'', PInt 0), (''status'', PStr ''starting'')]]
   \<and> background_tasks (snd (convert_slide wildcard_match slide1_uploaded ''slide1'')) =
       [slide1_task]
   \<and> cache (snd (convert_slide wildcard_match slide1_uploaded ''slide1'')) = []"
proof -
  have found: "glob wildcard_match (uploads slide1_uploaded) (''slide1'' @ ''.*'') =
     [''uploads'', ''slide1.svs''] # []"
    by (simp add: slide1_uploaded_def)
  have fresh: "\<not> is_converted (cache slide1_uploaded) ''slide1''"
    by (simp add: is_converted_def paths_defs example_defs)
  from convert_slide_dispatch [OF found fresh] found fresh
  show ?thesis by (simp add: slide1_uploaded_def slide1_task_def)
qed

text \<open>
  The spec's sentence fails on the response: the new job's recorded state is
  \<^verbatim>\<open>starting\<close>, the response says \<^verbatim>\<open>converting\<close>.
\<close>

theorem convert_slide_response_counterexample:
  "fst (convert_slide wildcard_match slide1_uploaded ''slide1'') =
     Inr [(''success'', PBool True),
          (''message'', PStr ''Conversion started''),
          (''dzi_url'', PStr ''/api/dzi/slide1.dzi''),
          (''status'', PStr ''converting'')]
   \<and> conversion_progress (snd (convert_slide wildcard_match slide1_uploaded ''slide1''))
         ''slide1'' =
       Some [(''progress'', PInt 0), (''status'', PStr ''starting'')]
   \<and> map_of (projr (fst (convert_slide wildcard_match slide1_uploaded ''slide1''))) ''status'' \<noteq>
       Some (PStr ''starting'')"
  by (simp add: convert_slide_def is_converted_def paths_defs example_defs)

subsection \<open>Progress queries\<close>

text \<open>
  C3. For a slide that has no entry in the in-memory progress map, the progress query
  reports progress 100 and status \<^verbatim>\<open>complete\<close> when the descriptor exists; otherwise
  the fixed placeholder 50 with status \<^verbatim>\<open>converting\<close> when at least one tile of the
  slide is cached; otherwise progress 0 and status \<^verbatim>\<open>idle\<close>.
\<close>

theorem get_progress_untracked:
  assumes "conversion_progress st slide_name = None"
  shows "(is_converted (cache st) slide_name \<longrightarrow>
            get_progress st slide_name =
              [(''progress'', PInt 100), (''status'', PStr ''complete'')])
         \<and> (\<not> is_converted (cache st) slide_name \<and> is_viewable (cache st) slide_name \<longrightarrow>
            get_progress st slide_name =
              [(''progress'', PInt 50), (''status'', PStr ''converting'')])
         \<and> (\<not> is_converted (cache st) slide_name \<and> \<not> is_viewable (cache st) slide_name \<longrightarrow>
            get_progress st slide_name =
              [(''progress'', PInt 0), (''status'', PStr ''idle'')])"
  using assms by (simp add: get_progress_def)

theorem get_progress_untracked_witness:
  "conversion_progress slide1_restarted ''slide1'' = None
   \<and> is_converted (cache slide1_restarted) ''slide1''
   \<and> get_progress slide1_restarted ''slide1'' =
       [(''progress'', PInt 100), (''status'', PStr ''complete'')]
   \<and> conversion_progress slide1_partial ''slide1'' = None
   \<and> \<not> is_converted (cache slide1_partial) ''slide1''
   \<and> is_viewable (cache slide1_partial) ''slide1''
   \<and> get_progress slide1_partial ''slide1'' =
       [(''progress'', PInt 50), (''status'', PStr ''converting'')]
   \<and> conversion_progress slide1_uploaded ''slide1'' = None
   \<and> \<not> is_converted (cache slide1_uploaded) ''slide1''
   \<and> \<not> is_viewable (cache slide1_uploaded) ''slide1''
   \<and> get_progress slide1_uploaded ''slide1'' =
       [(''progress'', PInt 0), (''status'', PStr ''idle'')]"
proof -
  have a: "conversion_progress slide1_restarted ''slide1'' = None"
    and b: "conversion_progress slide1_partial ''slide1'' = None"
    and c: "conversion_progress slide1_uploaded ''slide1'' = None"
    by (simp_all add: example_defs)
  have a1: "is_converted (cache slide1_restarted) ''slide1''"
    by (simp add: is_converted_def paths_defs example_defs)
  have b1: "\<not> is_converted (cache slide1_partial) ''slide1''"
    and b2: "is_viewable (cache slide1_partial) ''slide1''"
    by (simp_all add: is_converted_def is_viewable_def paths_defs example_defs)
  have c1: "\<not> is_converted (cache slide1_uploaded) ''slide1''"
    and c2: "\<not> is_viewable (cache slide1_uploaded) ''slide1''"
    by (simp_all add: is_converted_def is_viewable_def paths_defs example_defs)
  from get_progress_untracked [OF a] get_progress_untracked [OF b]
    get_progress_untracked [OF c] a b c a1 b1 b2 c1 c2
  show ?thesis by simp
qed

text \<open>
  C5. The progress query looks the slide up in the in-memory map first and returns the
  entry it finds there, whether or not the descriptor exists. For a slide whose
  descriptor exists, the query reports \<^verbatim>\<open>complete\<close> with progress 100 when the map has
  no entry for the slide.
\<close>

theorem get_progress_converted:
  "(is_converted (cache st) slide_name \<and> conversion_progress st slide_name = None \<longrightarrow>
      get_progress st slide_name =
        [(''progress'', PInt 100), (''status'', PStr ''complete'')])
   \<and> (\<forall>entry. conversion_progress st slide_name = Some entry \<longrightarrow>
         get_progress st slide_name = entry)"
  by (simp add: get_progress_def)

theorem get_progress_converted_witness:
  "is_converted (cache slide1_restarted) ''slide1''
   \<and> conversion_progress slide1_restarted ''slide1'' = None
   \<and> get_progress slide1_restarted ''slide1'' =
       [(''progress'', PInt 100), (''status'', PStr ''complete'')]
   \<and> is_converted (cache slide1_stale) ''slide1''
   \<and> conversion_progress slide1_stale ''slide1'' =
       Some [(''progress'', PFloat 40), (''status'', PStr ''converting'')]
   \<and> get_progress slide1_stale ''slide1'' =
       [(''progress'', PFloat 40), (''status'', PStr ''converting'')]
   \<and> \<not> is_converted (cache slide1_converting) ''slide1''
   \<and> conversion_progress slide1_converting ''slide1'' =
       Some [(''progress'', PFloat 40), (''status'', PStr ''converting'')]
   \<and> get_progress slide1_converting ''slide1'' =
       [(''progress'', PFloat 40), (''status'', PStr ''converting'')]"
proof -
  have a: "is_converted (cache slide1_restarted) ''slide1''"
    and b: "is_converted (cache slide1_stale) ''slide1''"
    and c: "\<not> is_converted (cache slide1_converting) ''slide1''"
    by (simp_all add: is_converted_def paths_defs example_defs)
  have a1: "conversion_progress slide1_restarted ''slide1'' = None"
    and b1: "conversion_progress slide1_stale ''slide1'' =
       Some [(''progress'', PFloat 40), (''status'', PStr ''converting'')]"
    and c1: "conversion_progress slide1_converting ''slide1'' =
       Some [(''progress'', PFloat 40), (''status'', PStr ''converting'')]"
    by (simp_all add: example_defs)
  from get_progress_converted [of slide1_restarted "''slide1''"]
    get_progress_converted [of slide1_stale "''slide1''"]
    get_progress_converted [of slide1_converting "''slide1''"]
    a b c a1 b1 c1
  show ?thesis by simp
qed

text \<open>
  The spec's sentence fails where the descriptor is on disk and the map
  still holds the entry of a running job: the query reports that entry.
\<close>

theorem get_progress_trusts_tracker_counterexample:
  "is_converted (cache slide1_stale) ''slide1''
   \<and> get_progress slide1_stale ''slide1'' =
       [(''progress'', PFloat 40), (''status'', PStr ''converting'')]
   \<and> get_progress slide1_stale ''slide1'' \<noteq>
       [(''progress'', PInt 100), (''status'', PStr ''complete'')]"
  by (simp add: get_progress_def is_converted_def paths_defs example_defs)

subsection \<open>Deleting a slide\<close>

text \<open>
  C10. When no file of the upload folder matches the slide's name, the delete endpoint
  fails with 404 and leaves the state unchanged: the cached tiles and the descriptor of
  that name stay. The uploads and the cache change only when a matching upload exists.
\<close>

theorem delete_slide_not_found:
  "(glob fnmatch (uploads st) (slide_name @ ''.*'') = [] \<longrightarrow>
      delete_slide fnmatch st slide_name = (Inl (HTTPException 404 ''Slide not found''), st))
   \<and> (uploads (snd (delete_slide fnmatch st slide_name)) \<noteq> uploads st
        \<or> cache (snd (delete_slide fnmatch st slide_name)) \<noteq> cache st \<longrightarrow>
      glob fnmatch (uploads st) (slide_name @ ''.*'') \<noteq> [])"
  by (auto simp: delete_slide_def Let_def)

theorem delete_slide_not_found_witness:
  "glob wildcard_match (uploads slide1_orphaned) (''slide1'' @ ''.*'') = []
   \<and> delete_slide wildcard_match slide1_orphaned ''slide1'' =
       (Inl (HTTPException 404 ''Slide not found''), slide1_orphaned)
   \<and> is_converted (cache (snd (delete_slide wildcard_match slide1_orphaned ''slide1''))) ''slide1''
   \<and> is_viewable (cache (snd (delete_slide wildcard_match slide1_orphaned ''slide1''))) ''slide1''
   \<and> cache (snd (delete_slide wildcard_match slide1_restarted ''slide1'')) \<noteq>
       cache slide1_restarted
   \<and> glob wildcard_match (uploads slide1_restarted) (''slide1'' @ ''.*'') \<noteq> []"
proof -
  have gone: "glob wildcard_match (uploads slide1_orphaned) (''slide1'' @ ''.*'') = []"
    by (simp add: slide1_orphaned_def)
  have kept: "is_converted (cache slide1_orphaned) ''slide1''"
    "is_viewable (cache slide1_orphaned) ''slide1''"
    by (simp_all add: is_converted_def is_viewable_def paths_defs example_defs)
  have changed: "cache (snd (delete_slide wildcard_match slide1_restarted ''slide1'')) \<noteq>
       cache slide1_restarted"
    by (simp add: delete_slide_def cleanup_cache_def paths_defs example_defs)
  from delete_slide_not_found [of wildcard_match slide1_orphaned "''slide1''"]
    delete_slide_not_found [of wildcard_match slide1_restarted "''slide1''"]
    gone kept changed
  show ?thesis by simp
qed

text \<open>
  C4. After a successful delete the descriptor of the slide is absent and no tile of
  the slide is cached. \<^verbatim>\<open>delete_slide\<close> leaves the in-memory progress map alone, so
  the progress query that follows reports \<^verbatim>\<open>idle\<close> with progress 0 when the map has
  no entry for the slide, and the entry as it stood before the delete when it has one.
\<close>

theorem delete_slide_then_progress:
  assumes "fst (delete_slide fnmatch st slide_name) = Inr response"
    and "st' = snd (delete_slide fnmatch st slide_name)"
  shows "\<not> is_converted (cache st') slide_name
         \<and> \<not> is_viewable (cache st') slide_name
         \<and> (conversion_progress st slide_name = None \<longrightarrow>
              get_progress st' slide_name =
                [(''progress'', PInt 0), (''status'', PStr ''idle'')])
         \<and> (\<forall>entry. conversion_progress st slide_name = Some entry \<longrightarrow>
               get_progress st' slide_name = entry)"
proof -
  from assms(1) have found: "glob fnmatch (uploads st) (slide_name @ ''.*'') \<noteq> []"
    by (auto simp: delete_slide_def Let_def split: if_splits)
  with assms(2) have cache': "cache st' = cleanup_cache (cache st) slide_name"
    and tracker: "conversion_progress st' = conversion_progress st"
    by (simp_all add: delete_slide_def Let_def)
  have gone: "\<not> is_converted (cache st') slide_name" "\<not> is_viewable (cache st') slide_name"
    by (simp_all add: cache' cleanup_cache_not_converted cleanup_cache_not_viewable)
  then show ?thesis
    by (simp add: get_progress_def tracker)
qed

theorem delete_slide_then_progress_witness:
  "fst (delete_slide wildcard_match slide1_restarted ''slide1'') =
     Inr [(''success'', PBool True), (''message'', PStr ''Slide deleted'')]
   \<and> uploads (snd (delete_slide wildcard_match slide1_restarted ''slide1'')) = [''other.tif'']
   \<and> cache (snd (delete_slide wildcard_match slide1_restarted ''slide1'')) = []
   \<and> conversion_progress slide1_restarted ''slide1'' = None
   \<and> get_progress (snd (delete_slide wildcard_match slide1_restarted ''slide1'')) ''slide1'' =
       [(''progress'', PInt 0), (''status'', PStr ''idle'')]"
proof -
  have ok: "fst (delete_slide wildcard_match slide1_restarted ''slide1'') =
     Inr [(''success'', PBool True), (''message'', PStr ''Slide deleted'')]"
    by (simp add: delete_slide_def slide1_restarted_def)
  have ups: "uploads (snd (delete_slide wildcard_match slide1_restarted ''slide1'')) = [''other.tif'']"
    by (simp add: delete_slide_def slide1_restarted_def unlink_def UPLOAD_FOLDER_def)
  have files: "cache (snd (delete_slide wildcard_match slide1_restarted ''slide1'')) = []"
    by (simp add: delete_slide_def cleanup_cache_def paths_defs example_defs)
  have untracked: "conversion_progress slide1_restarted ''slide1'' = None"
    by (simp add: slide1_restarted_def)
  from delete_slide_then_progress [OF ok refl] ok ups files untracked
  show ?thesis by simp
qed

text \<open>
  The spec's sentence fails after a tracked conversion: the entry the
  conversion left in the map outlives the delete, and the progress query still reports
  \<^verbatim>\<open>complete\<close> for the deleted slide.
\<close>

theorem delete_slide_then_progress_counterexample:
  "fst (delete_slide wildcard_match slide1_converted ''slide1'') =
     Inr [(''success'', PBool True), (''message'', PStr ''Slide deleted'')]
   \<and> get_progress (snd (delete_slide wildcard_match slide1_converted ''slide1'')) ''slide1'' =
       [(''progress'', PFloat 100), (''status'', PStr ''complete'')]
   \<and> get_progress (snd (delete_slide wildcard_match slide1_converted ''slide1'')) ''slide1'' \<noteq>
       [(''progress'', PInt 0), (''status'', PStr ''idle'')]"
  by (simp add: delete_slide_def get_progress_def slide1_converted_def)

subsection \<open>Serving tiles\<close>

declare str_nat.simps [simp del]

lemma digit_inj: "a < 10 \<Longrightarrow> b < 10 \<Longrightarrow> digit a = digit b \<Longrightarrow> a = b"
  unfolding digit_def
  by (auto simp: less_Suc_eq numeral_eq_Suc)


lemma str_nat_nonempty: "str_nat n \<noteq> []"
  by (subst str_nat.simps) simp

lemma digit_is_digit: "d < 10 \<Longrightarrow> digit d \<in> set ''0123456789''"
  unfolding digit_def
  by (auto simp: less_Suc_eq numeral_eq_Suc)

lemma str_nat_digits: "set (str_nat n) \<subseteq> set ''0123456789''"
proof (induction n rule: str_nat.induct)
  case (1 n)
  show ?case
  proof (cases "n < 10")
    case True
    then show ?thesis
      using digit_is_digit [of n] by (subst str_nat.simps) simp
  next
    case False
    with 1 have "set (str_nat (n div 10)) \<subseteq> set ''0123456789''"
      by simp
    moreover have "digit (n mod 10) \<in> set ''0123456789''"
      by (rule digit_is_digit) simp
    ultimately show ?thesis
      using False by (subst str_nat.simps) simp
  qed
qed

lemma str_nat_inj: "str_nat a = str_nat b \<Longrightarrow> a = b"
proof (induction a arbitrary: b rule: str_nat.induct)
  case (1 n)
  show ?case
  proof (cases "n < 10")
    case small: True
    show ?thesis
    proof (cases "b < 10")
      case True
      with small 1(2) show ?thesis
        by (simp add: str_nat.simps [of n] str_nat.simps [of b] digit_inj)
    next
      case False
      with small 1(2) show ?thesis
        using str_nat_nonempty [of "b div 10"]
        by (simp add: str_nat.simps [of n] str_nat.simps [of b])
    qed
  next
    case large: False
    show ?thesis
    proof (cases "b < 10")
      case True
      with large 1(2) show ?thesis
        using str_nat_nonempty [of "n div 10"]
        by (simp add: str_nat.simps [of n] str_nat.simps [of b])
    next
      case False
      with large 1(2) have eq: "str_nat (n div 10) = str_nat (b div 10)"
        and last: "digit (n mod 10) = digit (b mod 10)"
        by (simp_all add: str_nat.simps [of n] str_nat.simps [of b])
      from 1(1) [OF large eq] have "n div 10 = b div 10" .
      moreover from last have "n mod 10 = b mod 10"
        by (intro digit_inj) simp_all
      ultimately show ?thesis
        by (metis div_mult_mod_eq)
    qed
  qed
qed

lemma str_nat_no_sep:
  "CHR ''-'' \<notin> set (str_nat n)" "CHR ''_'' \<notin> set (str_nat n)" "CHR ''.'' \<notin> set (str_nat n)"
proof -
  have "\<And>c. c \<in> set (str_nat n) \<Longrightarrow> c \<in> set ''0123456789''"
    using str_nat_digits [of n] by (rule subsetD)
  then have "\<And>c. c \<in> set (str_nat n) \<Longrightarrow> c \<noteq> CHR ''-'' \<and> c \<noteq> CHR ''_'' \<and> c \<noteq> CHR ''.''"
    by fastforce
  then show "CHR ''-'' \<notin> set (str_nat n)" "CHR ''_'' \<notin> set (str_nat n)"
    "CHR ''.'' \<notin> set (str_nat n)"
    by blast+
qed

lemma str_no_sep: "CHR ''_'' \<notin> set (str i)" "CHR ''.'' \<notin> set (str i)"
  by (simp_all add: str_def str_nat_no_sep)

lemma str_inj: "str a = str b \<Longrightarrow> a = b"
proof -
  assume eq: "str a = str b"
  have no_minus: "\<And>n t. str_nat n \<noteq> CHR ''-'' # t"
  proof
    fix n t
    assume "str_nat n = CHR ''-'' # t"
    then have "CHR ''-'' \<in> set (str_nat n)" by simp
    with str_nat_no_sep(1) [of n] show False by simp
  qed
  show ?thesis
  proof (cases "a < 0")
    case neg: True
    show ?thesis
    proof (cases "b < 0")
      case True
      with neg eq have "str_nat (nat (- a)) = str_nat (nat (- b))"
        by (simp add: str_def)
      then have "nat (- a) = nat (- b)" by (rule str_nat_inj)
      with neg True show ?thesis by simp
    next
      case False
      with neg eq have "str_nat (nat b) = CHR ''-'' # str_nat (nat (- a))"
        by (simp add: str_def)
      with no_minus show ?thesis by blast
    qed
  next
    case pos: False
    show ?thesis
    proof (cases "b < 0")
      case True
      with pos eq have "str_nat (nat a) = CHR ''-'' # str_nat (nat (- b))"
        by (simp add: str_def)
      with no_minus show ?thesis by blast
    next
      case False
      with pos eq have "str_nat (nat a) = str_nat (nat b)"
        by (simp add: str_def)
      then have "nat a = nat b" by (rule str_nat_inj)
      with pos False show ?thesis by simp
    qed
  qed
qed

lemma split_at_sep:
  "c \<notin> set a \<Longrightarrow> c \<notin> set b \<Longrightarrow> a @ c # x = b @ c # y \<Longrightarrow> a = b \<and> x = y"
proof (induction a arbitrary: b)
  case Nil
  then show ?case by (cases b) auto
next
  case (Cons h t)
  then show ?case by (cases b) auto
qed

lemma tile_name_inj:
  assumes "str c @ ''_'' @ str r @ ''.'' @ f = str c' @ ''_'' @ str r' @ ''.'' @ f'"
  shows "c = c' \<and> r = r' \<and> f = f'"
proof -
  from assms have "str c @ CHR ''_'' # (str r @ ''.'' @ f) = str c' @ CHR ''_'' # (str r' @ ''.'' @ f')"
    by simp
  with split_at_sep [OF str_no_sep(1) str_no_sep(1)]
  have c: "str c = str c'" and rest: "str r @ ''.'' @ f = str r' @ ''.'' @ f'"
    by blast+
  from rest have "str r @ CHR ''.'' # f = str r' @ CHR ''.'' # f'"
    by simp
  with split_at_sep [OF str_no_sep(2) str_no_sep(2)]
  have "str r = str r'" and "f = f'"
    by blast+
  with c show ?thesis by (simp add: str_inj)
qed

lemma tile_path_inj:
  assumes "tile_path s l c r f = tile_path s' l' c' r' f'"
  shows "s = s' \<and> l = l' \<and> c = c' \<and> r = r' \<and> f = f'"
proof -
  from assms have "s = s'" "str l = str l'"
    and "str c @ ''_'' @ str r @ ''.'' @ f = str c' @ ''_'' @ str r' @ ''.'' @ f'"
    by (simp_all add: tile_path_def tiles_dir_def)
  then show ?thesis
    using str_inj [of l l'] tile_name_inj [of c r f c' r' f'] by simp
qed


lemma slide1_tile_paths:
  "[''cache'', ''slide1_files'', ''0'', ''0_0.jpeg''] = tile_path ''slide1'' 0 0 0 ''jpeg''"
  "[''cache'', ''slide1_files'', ''1'', ''0_0.jpeg''] = tile_path ''slide1'' 1 0 0 ''jpeg''"
  "[''cache'', ''slide1_files'', ''1'', ''1_0.jpeg''] = tile_path ''slide1'' 1 1 0 ''jpeg''"
  "[''cache'', ''slide1_files'', ''1'', ''2_0.jpeg''] = tile_path ''slide1'' 1 2 0 ''jpeg''"
  by (simp_all add: tile_path_def tiles_dir_def CACHE_FOLDER_def str_def str_nat.simps digit_def)

lemma slide1_restarted_cache: "cache slide1_restarted = slide1_dzi # slide1_tiles"
  by (simp add: slide1_restarted_def)

text \<open>
  C8. A tile request is answered from the tile's file alone; \<^verbatim>\<open>serve_tile\<close> checks no
  range. Where the file system takes the path: when the file exists, the response
  carries its content with the media type \<^verbatim>\<open>image/<format>\<close>, and when it does not
  exist, the answer is 404. Where the file system refuses the path, the answer is 500.
  A response never carries anything but the content of the requested tile's file.
\<close>

theorem serve_tile_found_or_not_found:
  "(os_error (tile_path slide_name level col row format) = None \<longrightarrow>
      (\<forall>content. map_of (cache st) (tile_path slide_name level col row format) = Some content \<longrightarrow>
         serve_tile os_error st slide_name level col row format =
           Inr (FileResponse (tile_path slide_name level col row format) content
                  (''image/'' @ format)))
      \<and> (map_of (cache st) (tile_path slide_name level col row format) = None \<longrightarrow>
           serve_tile os_error st slide_name level col row format =
             Inl (HTTPException 404 ''Tile not found'')))
   \<and> (\<forall>e. os_error (tile_path slide_name level col row format) = Some e \<longrightarrow>
         serve_tile os_error st slide_name level col row format = Inl (HTTPException 500 e))
   \<and> (\<forall>response. serve_tile os_error st slide_name level col row format = Inr response \<longrightarrow>
         (\<exists>content. map_of (cache st) (tile_path slide_name level col row format) = Some content
            \<and> response = FileResponse (tile_path slide_name level col row format) content
                (''image/'' @ format)))"
  by (auto simp: serve_tile_def split: option.splits)

theorem serve_tile_found_or_not_found_witness:
  "serve_tile no_os_error slide1_restarted ''slide1'' 1 1 0 ''jpeg'' =
     Inr (FileResponse [''cache'', ''slide1_files'', ''1'', ''1_0.jpeg''] ''tile-1-1-0''
            ''image/jpeg'')
   \<and> serve_tile no_os_error slide1_restarted ''slide1'' 1 2 0 ''jpeg'' =
       Inl (HTTPException 404 ''Tile not found'')
   \<and> serve_tile name_max_255 slide1_restarted ''slide1'' 1 2 0 (replicate 300 CHR ''g'') =
       Inl (HTTPException 500 ''File name too long'')"
proof -
  have hit: "map_of (cache slide1_restarted) (tile_path ''slide1'' 1 1 0 ''jpeg'') =
      Some ''tile-1-1-0''"
    unfolding slide1_tile_paths(3) [symmetric] slide1_restarted_cache
    by (simp add: slide1_dzi_def slide1_tiles_def)
  have miss: "map_of (cache slide1_restarted) (tile_path ''slide1'' 1 2 0 ''jpeg'') = None"
    unfolding slide1_tile_paths(4) [symmetric] slide1_restarted_cache
    by (simp add: slide1_dzi_def slide1_tiles_def)
  have taken: "no_os_error (tile_path ''slide1'' 1 1 0 ''jpeg'') = None"
    "no_os_error (tile_path ''slide1'' 1 2 0 ''jpeg'') = None"
    by (simp_all add: no_os_error_def)
  have long: "name_max_255 (tile_path ''slide1'' 1 2 0 (replicate 300 CHR ''g'')) =
      Some ''File name too long''"
    by (simp add: name_max_255_def tile_path_def tiles_dir_def CACHE_FOLDER_def)
  from serve_tile_found_or_not_found
      [of no_os_error "''slide1''" 1 1 0 "''jpeg''" slide1_restarted] hit taken(1)
  have "serve_tile no_os_error slide1_restarted ''slide1'' 1 1 0 ''jpeg'' =
     Inr (FileResponse (tile_path ''slide1'' 1 1 0 ''jpeg'') ''tile-1-1-0''
            (''image/'' @ ''jpeg''))"
    by blast
  then have served: "serve_tile no_os_error slide1_restarted ''slide1'' 1 1 0 ''jpeg'' =
     Inr (FileResponse [''cache'', ''slide1_files'', ''1'', ''1_0.jpeg''] ''tile-1-1-0''
            ''image/jpeg'')"
    unfolding slide1_tile_paths(3) [symmetric] by simp
  from serve_tile_found_or_not_found
      [of no_os_error "''slide1''" 1 2 0 "''jpeg''" slide1_restarted] miss taken(2)
  have absent: "serve_tile no_os_error slide1_restarted ''slide1'' 1 2 0 ''jpeg'' =
       Inl (HTTPException 404 ''Tile not found'')"
    by blast
  from serve_tile_found_or_not_found
      [of name_max_255 "''slide1''" 1 2 0 "replicate 300 CHR ''g''" slide1_restarted] long
  have refused: "serve_tile name_max_255 slide1_restarted ''slide1'' 1 2 0
       (replicate 300 CHR ''g'') = Inl (HTTPException 500 ''File name too long'')"
    by blast
  from served absent refused show ?thesis by blast
qed

text \<open>
  The spec's sentence fails on coordinates outside the slide's tile grid: level 1 of
  \<^verbatim>\<open>slide1\<close> has two columns, and the file that lies in the cache at column 2 is served.
\<close>

theorem serve_tile_out_of_range_counterexample:
  "\<not> in_range slide1_plan 1 2 0
   \<and> serve_tile no_os_error slide1_overfull ''slide1'' 1 2 0 ''jpeg'' =
       Inr (FileResponse [''cache'', ''slide1_files'', ''1'', ''2_0.jpeg''] ''tile-1-2-0''
              ''image/jpeg'')
   \<and> serve_tile no_os_error slide1_overfull ''slide1'' 1 2 0 ''jpeg'' \<noteq>
       Inl (HTTPException 404 ''Tile not found'')"
proof -
  have "map_of (cache slide1_overfull) (tile_path ''slide1'' 1 2 0 ''jpeg'') =
      Some ''tile-1-2-0''"
    unfolding slide1_tile_paths(4) [symmetric]
    by (simp add: slide1_overfull_def slide1_dzi_def slide1_tiles_def)
  then have "serve_tile no_os_error slide1_overfull ''slide1'' 1 2 0 ''jpeg'' =
       Inr (FileResponse [''cache'', ''slide1_files'', ''1'', ''2_0.jpeg''] ''tile-1-2-0''
              ''image/jpeg'')"
    unfolding slide1_tile_paths(4) [symmetric]
    by (simp add: serve_tile_def no_os_error_def slide1_tile_paths(4) [symmetric])
  moreover have "\<not> in_range slide1_plan 1 2 0"
    by (simp add: in_range_def slide1_plan_def)
  ultimately show ?thesis by simp
qed

end
